theory Spec2Isabelle
  imports Complex_Main "HOL-Library.Sublist" "HOL-Library.Multiset"
begin

section \<open>Values of the runtime\<close>

text \<open>
  The handlers of \<^verbatim>\<open>main.py\<close> read and write a MongoDB database through the driver object
  \<^verbatim>\<open>db\<close>. A handler is modelled as a function of its arguments and of \<^verbatim>\<open>db\<close> that
  returns its result (or the exception it raises) and, when it writes, the database afterwards.
  The object \<^verbatim>\<open>db\<close> itself is imported from the module \<^verbatim>\<open>database\<close> and is an argument
  here: \<open>None\<close> when no database is configured, the database otherwise.
  Two values come from the environment and are passed in as arguments: \<^verbatim>\<open>now\<close>, the clock
  reading \<^verbatim>\<open>datetime.now(timezone.utc)\<close>, and the identifier the driver generates for an
  inserted document. Python strings are modelled as \<^typ>\<open>string\<close> (ASCII), Python floats as
  real numbers: rounding of the floating-point operations is not modelled.
\<close>

type_synonym datetime = int

text \<open>
  The exceptions a handler can raise: \<^verbatim>\<open>HTTPException(status, detail)\<close>, and
  \<^verbatim>\<open>bson.errors.InvalidId\<close>, which no handler of the framework maps to a status of its own.
\<close>

datatype error = HTTPException nat string | InvalidId string

subsection \<open>Strings\<close>

definition lower_char :: "char \<Rightarrow> char" where
  "lower_char c =
     (let n = (of_char c :: nat) in if 65 \<le> n \<and> n \<le> 90 then char_of (n + 32) else c)"

definition upper_char :: "char \<Rightarrow> char" where
  "upper_char c =
     (let n = (of_char c :: nat) in if 97 \<le> n \<and> n \<le> 122 then char_of (n - 32) else c)"

definition lower :: "string \<Rightarrow> string" where
  "lower s = map lower_char s"

definition upper :: "string \<Rightarrow> string" where
  "upper s = map upper_char s"

text \<open>\<^verbatim>\<open>sub in s\<close> on strings: \<^verbatim>\<open>sub\<close> occurs in \<^verbatim>\<open>s\<close> at some position.\<close>

fun py_in :: "string \<Rightarrow> string \<Rightarrow> bool" where
  "py_in sub [] = (sub = [])"
| "py_in sub (c # cs) = (prefix sub (c # cs) \<or> py_in sub cs)"

subsection \<open>Object identifiers\<close>

text \<open>
  \<^verbatim>\<open>bson.ObjectId\<close>: twelve bytes. \<^verbatim>\<open>ObjectId(s)\<close> on a string accepts the 24 hexadecimal
  digits of the bytes, in either case, and raises \<^verbatim>\<open>InvalidId\<close> on anything else;
  \<^verbatim>\<open>str\<close> gives the digits back in lower case. The bytes are kept as that lower-case text.
\<close>

datatype oid = Oid string

definition is_hex :: "char \<Rightarrow> bool" where
  "is_hex c = (c \<in> set ''0123456789abcdefABCDEF'')"

definition ObjectId :: "string \<Rightarrow> error + oid" where
  "ObjectId s =
     (if length s = 24 \<and> list_all is_hex s then Inr (Oid (lower s)) else Inl (InvalidId s))"

fun str_oid :: "oid \<Rightarrow> string" where
  "str_oid (Oid h) = h"

section \<open>Documents\<close>

text \<open>
  The documents the handlers write, one record per collection, with the fields of the
  dictionaries built in \<^verbatim>\<open>main.py\<close>. The \<^verbatim>\<open>_id\<close> of a stored document is kept beside
  it: a collection is a list of pairs, in insertion order.
\<close>

record PersonaCreate =
  handle :: string
  color :: "string option"
  bio :: "string option"
  avatar_letter :: "string option"

record Persona =
  tenant_id :: string
  handle :: string
  color :: "string option"
  bio :: "string option"
  avatar_letter :: string
  trust_level :: int
  score_thanks :: int
  score_helpful :: int
  created_at :: datetime
  updated_at :: datetime
  is_banned :: bool

record Room =
  tenant_id :: string
  name :: string
  type :: string
  city :: "string option"
  topic :: "string option"
  member_count :: int
  created_at :: datetime
  updated_at :: datetime

record RoomMember =
  tenant_id :: string
  room_id :: string
  persona_id :: string
  joined_at :: datetime

record Message =
  tenant_id :: string
  room_id :: string
  persona_id :: string
  content :: string
  reactions :: "string list"
  created_at :: datetime
  updated_at :: datetime
  deleted :: bool

text \<open>
  \<^verbatim>\<open>nearby_alerts\<close> reads \<^verbatim>\<open>lat\<close> and \<^verbatim>\<open>lng\<close> with \<^verbatim>\<open>a.get(key, 0)\<close>, so a stored
  alert may lack them: \<open>None\<close> is the absent field.
\<close>

record Alert =
  tenant_id :: string
  persona_id :: string
  type :: string
  alert_text :: string
  radius_m :: int
  lat :: "real option"
  lng :: "real option"
  status :: string
  reactions_real :: int
  reactions_spam :: int
  reactions_helping :: int
  created_at :: datetime
  updated_at :: datetime

type_synonym 'a collection = "(oid \<times> 'a) list"

record database =
  persona :: "Persona collection"
  room :: "Room collection"
  roommember :: "RoomMember collection"
  message :: "Message collection"
  alert :: "Alert collection"

definition TENANT_DEFAULT :: string where
  "TENANT_DEFAULT = ''default''"

text \<open>
  \<^verbatim>\<open>to_str_id\<close> replaces \<^verbatim>\<open>_id\<close> by its text under the key \<^verbatim>\<open>id\<close>. Its first branch
  returns an empty document as it is; a stored document always has its \<^verbatim>\<open>_id\<close>.
\<close>

fun to_str_id :: "oid \<times> 'a \<Rightarrow> string \<times> 'a" where
  "to_str_id (i, d) = (str_oid i, d)"

section \<open>Collection operations of the driver\<close>

text \<open>
  The operations of a pymongo collection that the handlers call, on the list of stored
  documents. A filter dictionary is the predicate it denotes.
\<close>

definition find_one :: "(oid \<times> 'a \<Rightarrow> bool) \<Rightarrow> 'a collection \<Rightarrow> (oid \<times> 'a) option" where
  "find_one q c = List.find q c"

definition find_docs :: "(oid \<times> 'a \<Rightarrow> bool) \<Rightarrow> 'a collection \<Rightarrow> 'a collection" where
  "find_docs q c = filter q c"

text \<open>\<^verbatim>\<open>cursor.sort(key, direction)\<close>: ascending for direction 1, descending for -1.\<close>

definition cursor_sort :: "('a \<Rightarrow> datetime) \<Rightarrow> int \<Rightarrow> 'a collection \<Rightarrow> 'a collection" where
  "cursor_sort key direction c =
     (if direction < 0 then sort_key (\<lambda>d. - key (snd d)) c else sort_key (\<lambda>d. key (snd d)) c)"

text \<open>
  \<^verbatim>\<open>cursor.limit(n)\<close>: a limit of 0 is no limit, and the server reads a negative limit as
  its absolute value.
\<close>

definition cursor_limit :: "int \<Rightarrow> 'a list \<Rightarrow> 'a list" where
  "cursor_limit n c = (if n = 0 then c else take (nat \<bar>n\<bar>) c)"

definition insert_one :: "oid \<Rightarrow> 'a \<Rightarrow> 'a collection \<Rightarrow> 'a collection" where
  "insert_one new_id doc c = c @ [(new_id, doc)]"

text \<open>\<^verbatim>\<open>update_one(filter, update)\<close> changes the first document that matches, if any.\<close>

fun update_one :: "(oid \<times> 'a \<Rightarrow> bool) \<Rightarrow> ('a \<Rightarrow> 'a) \<Rightarrow> 'a collection \<Rightarrow> 'a collection" where
  "update_one q u [] = []"
| "update_one q u (x # xs) = (if q x then (fst x, u (snd x)) # xs else x # update_one q u xs)"

text \<open>
  \<^verbatim>\<open>update_one(filter, {"$setOnInsert": ...}, upsert=True)\<close>: a matching document is left as
  it is; when none matches, the document built from the filter and the \<^verbatim>\<open>$setOnInsert\<close>
  fields is inserted.
\<close>

definition upsert_set_on_insert ::
    "(oid \<times> 'a \<Rightarrow> bool) \<Rightarrow> oid \<Rightarrow> 'a \<Rightarrow> 'a collection \<Rightarrow> 'a collection" where
  "upsert_set_on_insert q new_id doc c =
     (case find_one q c of Some _ \<Rightarrow> c | None \<Rightarrow> insert_one new_id doc c)"

text \<open>\<^verbatim>\<open>delete_one(filter)\<close> removes the first document that matches, if any.\<close>

fun delete_one :: "(oid \<times> 'a \<Rightarrow> bool) \<Rightarrow> 'a collection \<Rightarrow> 'a collection" where
  "delete_one q [] = []"
| "delete_one q (x # xs) = (if q x then xs else x # delete_one q xs)"

section \<open>Handlers\<close>

subsection \<open>Startup\<close>

definition is_global_room :: "string \<Rightarrow> oid \<times> Room \<Rightarrow> bool" where
  "is_global_room tenant x =
     (Room.tenant_id (snd x) = tenant \<and> Room.type (snd x) = ''global''
      \<and> Room.name (snd x) = ''Global'')"

definition ensure_global_room :: "datetime \<Rightarrow> oid \<Rightarrow> database option \<Rightarrow> database option" where
  "ensure_global_room now new_id db =
     (case db of
        None \<Rightarrow> None
      | Some d \<Rightarrow>
          (case find_one (is_global_room TENANT_DEFAULT) (room d) of
             Some existing \<Rightarrow> Some d
           | None \<Rightarrow>
               Some (d\<lparr>room := insert_one new_id
                 \<lparr>Room.tenant_id = TENANT_DEFAULT, name = ''Global'', type = ''global'',
                  city = None, topic = None, member_count = 0,
                  created_at = now, updated_at = now\<rparr> (room d)\<rparr>)))"

subsection \<open>Personas\<close>

definition create_persona ::
    "PersonaCreate \<Rightarrow> string \<Rightarrow> datetime \<Rightarrow> oid \<Rightarrow> database option
      \<Rightarrow> (error + string \<times> Persona) \<times> database option" where
  "create_persona payload tenant now new_id db =
     (case db of
        None \<Rightarrow> (Inl (HTTPException 500 ''Database not configured''), db)
      | Some d \<Rightarrow>
          (case find_one (\<lambda>x. Persona.tenant_id (snd x) = tenant
                    \<and> Persona.handle (snd x) = PersonaCreate.handle payload) (persona d) of
             Some exists \<Rightarrow> (Inl (HTTPException 400 ''Handle already taken''), db)
           | None \<Rightarrow>
               (let doc = \<lparr>Persona.tenant_id = tenant,
                      handle = PersonaCreate.handle payload,
                      color = PersonaCreate.color payload,
                      bio = PersonaCreate.bio payload,
                      avatar_letter =
                        (case PersonaCreate.avatar_letter payload of
                           Some (c # cs) \<Rightarrow> c # cs
                         | _ \<Rightarrow> (if PersonaCreate.handle payload \<noteq> []
                                 then upper (take 1 (PersonaCreate.handle payload)) else ''?'')),
                      trust_level = 1, score_thanks = 0, score_helpful = 0,
                      created_at = now, updated_at = now, is_banned = False\<rparr>
                in (Inr (str_oid new_id, doc),
                    Some (d\<lparr>persona := insert_one new_id doc (persona d)\<rparr>)))))"

subsection \<open>Rooms\<close>

definition is_member :: "string \<Rightarrow> string \<Rightarrow> string \<Rightarrow> oid \<times> RoomMember \<Rightarrow> bool" where
  "is_member tenant rid pid x =
     (RoomMember.tenant_id (snd x) = tenant \<and> RoomMember.room_id (snd x) = rid
      \<and> RoomMember.persona_id (snd x) = pid)"

definition join_room ::
    "string \<Rightarrow> string \<Rightarrow> string \<Rightarrow> datetime \<Rightarrow> oid \<Rightarrow> database option
      \<Rightarrow> (error + bool) \<times> database option" where
  "join_room room_id' persona_id' tenant now new_id db =
     (case db of
        None \<Rightarrow> (Inl (HTTPException 500 ''Database not configured''), db)
      | Some d \<Rightarrow>
          (case ObjectId room_id' of
             Inl e \<Rightarrow> (Inl (HTTPException 400 ''Invalid ids''), db)
           | Inr rid \<Rightarrow>
          (case ObjectId persona_id' of
             Inl e \<Rightarrow> (Inl (HTTPException 400 ''Invalid ids''), db)
           | Inr pid \<Rightarrow>
          (case find_one (\<lambda>x. fst x = rid \<and> Room.tenant_id (snd x) = tenant) (room d) of
             None \<Rightarrow> (Inl (HTTPException 404 ''Room not found''), db)
           | Some found_room \<Rightarrow>
          (case find_one (\<lambda>x. fst x = pid \<and> Persona.tenant_id (snd x) = tenant) (persona d) of
             None \<Rightarrow> (Inl (HTTPException 404 ''Persona not found''), db)
           | Some found_persona \<Rightarrow>
               (let d1 = d\<lparr>roommember := upsert_set_on_insert
                            (is_member tenant room_id' persona_id') new_id
                            \<lparr>RoomMember.tenant_id = tenant, room_id = room_id',
                             persona_id = persona_id', joined_at = now\<rparr> (roommember d)\<rparr>;
                    d2 = d1\<lparr>room := update_one (\<lambda>x. fst x = rid)
                            (\<lambda>r. r\<lparr>member_count := member_count r + 1,
                                   Room.updated_at := now\<rparr>) (room d1)\<rparr>
                in (Inr True, Some d2)))))))"

text \<open>
  \<^verbatim>\<open>leave_room\<close> converts \<^verbatim>\<open>room_id\<close> while it builds the arguments of its second
  write, outside any \<^verbatim>\<open>try\<close>: the \<^verbatim>\<open>delete_one\<close> has run by then.
\<close>

definition leave_room ::
    "string \<Rightarrow> string \<Rightarrow> string \<Rightarrow> datetime \<Rightarrow> database option
      \<Rightarrow> (error + bool) \<times> database option" where
  "leave_room room_id' persona_id' tenant now db =
     (case db of
        None \<Rightarrow> (Inl (HTTPException 500 ''Database not configured''), db)
      | Some d \<Rightarrow>
          (let d1 = d\<lparr>roommember :=
                       delete_one (is_member tenant room_id' persona_id') (roommember d)\<rparr>
           in case ObjectId room_id' of
                Inl e \<Rightarrow> (Inl e, Some d1)
              | Inr rid \<Rightarrow>
                  (Inr True,
                   Some (d1\<lparr>room := update_one (\<lambda>x. fst x = rid)
                            (\<lambda>r. r\<lparr>member_count := member_count r - 1,
                                   Room.updated_at := now\<rparr>) (room d1)\<rparr>))))"

subsection \<open>Messages\<close>

definition list_messages ::
    "string \<Rightarrow> int \<Rightarrow> string \<Rightarrow> database option \<Rightarrow> error + (string \<times> Message) list" where
  "list_messages room_id' limit tenant db =
     (case db of
        None \<Rightarrow> Inl (HTTPException 500 ''Database not configured'')
      | Some d \<Rightarrow>
          (case ObjectId room_id' of
             Inl e \<Rightarrow> Inl (HTTPException 400 ''Invalid room id'')
           | Inr _ \<Rightarrow>
               Inr (map to_str_id
                 (cursor_limit limit
                   (cursor_sort Message.created_at 1
                     (find_docs (\<lambda>x. Message.tenant_id (snd x) = tenant
                                  \<and> Message.room_id (snd x) = room_id') (message d)))))))"

subsection \<open>Alerts\<close>

definition radians :: "real \<Rightarrow> real" where
  "radians x = x * pi / 180"

text \<open>The local \<^verbatim>\<open>a\<close> of \<^verbatim>\<open>haversine\<close>.\<close>

definition haversine_a :: "real \<Rightarrow> real \<Rightarrow> real \<Rightarrow> real \<Rightarrow> real" where
  "haversine_a lat1 lon1 lat2 lon2 =
     (let dlat = radians (lat2 - lat1);
          dlon = radians (lon2 - lon1)
      in (sin (dlat / 2))\<^sup>2 + cos (radians lat1) * cos (radians lat2) * (sin (dlon / 2))\<^sup>2)"

text \<open>
  \<^verbatim>\<open>math.sqrt\<close> and \<^verbatim>\<open>math.asin\<close> raise outside their domains. Over the reals
  \<open>haversine_a\<close> stays within \<open>[0, 1]\<close> (lemma \<open>haversine_a_range\<close> below), so
  neither does here.
\<close>

definition haversine :: "real \<Rightarrow> real \<Rightarrow> real \<Rightarrow> real \<Rightarrow> real" where
  "haversine lat1 lon1 lat2 lon2 =
     (let R = 6371000;
          a = haversine_a lat1 lon1 lat2 lon2;
          c = 2 * arcsin (sqrt a)
      in R * c)"



text \<open>The cursor \<^verbatim>\<open>nearby_alerts\<close> iterates: the tenant's alerts, newest first, 200 at most.\<close>

definition recent_alerts :: "string \<Rightarrow> database \<Rightarrow> Alert collection" where
  "recent_alerts tenant d =
     cursor_limit 200 (cursor_sort Alert.created_at (- 1)
       (find_docs (\<lambda>x. Alert.tenant_id (snd x) = tenant) (alert d)))"



subsection \<open>Moderation\<close>

definition moderate :: "string \<Rightarrow> bool" where
  "moderate text = list_ex (\<lambda>bad. py_in bad (lower text)) [''hate'', ''suicide'', ''spam'']"

section \<open>Example databases\<close>

text \<open>Concrete identifiers, documents and databases on which the properties below are run.\<close>

definition room_hex :: string where "room_hex = ''aaaaaaaaaaaaaaaaaaaaaaaa''"

definition persona_hex :: string where "persona_hex = ''bbbbbbbbbbbbbbbbbbbbbbbb''"

definition member_hex :: string where "member_hex = ''cccccccccccccccccccccccc''"

definition example_room :: Room where
  "example_room = \<lparr>Room.tenant_id = ''default'', name = ''Ikebukuro'', type = ''city'',
     city = None, topic = None, member_count = 1, created_at = 10, updated_at = 10\<rparr>"

definition example_persona :: Persona where
  "example_persona = \<lparr>Persona.tenant_id = ''default'', handle = ''alice'', color = None,
     bio = None, avatar_letter = ''A'', trust_level = 1, score_thanks = 0, score_helpful = 0,
     created_at = 5, updated_at = 5, is_banned = False\<rparr>"

definition example_member :: RoomMember where
  "example_member = \<lparr>RoomMember.tenant_id = ''default'', room_id = room_hex,
     persona_id = persona_hex, joined_at = 20\<rparr>"

definition example_db :: database where
  "example_db = \<lparr>persona = [(Oid persona_hex, example_persona)],
     room = [(Oid room_hex, example_room)],
     roommember = [(Oid member_hex, example_member)], message = [], alert = []\<rparr>"

definition stale_member :: RoomMember where
  "stale_member = \<lparr>RoomMember.tenant_id = ''default'', room_id = ''not-an-id'',
     persona_id = persona_hex, joined_at = 20\<rparr>"

definition stale_db :: database where
  "stale_db = example_db\<lparr>roommember := [(Oid member_hex, stale_member)]\<rparr>"

definition tenant_b_room :: Room where
  "tenant_b_room = \<lparr>Room.tenant_id = ''tenant-b'', name = ''Lobby'', type = ''topic'',
     city = None, topic = None, member_count = 0, created_at = 10, updated_at = 10\<rparr>"

definition tenant_b_db :: database where
  "tenant_b_db = \<lparr>persona = [], room = [(Oid room_hex, tenant_b_room)],
     roommember = [], message = [], alert = []\<rparr>"

definition alice_payload :: PersonaCreate where
  "alice_payload = \<lparr>PersonaCreate.handle = ''alice'', color = Some ''#7c3aed'', bio = None,
     avatar_letter = None\<rparr>"

definition global_room_doc :: "datetime \<Rightarrow> Room" where
  "global_room_doc now = \<lparr>Room.tenant_id = TENANT_DEFAULT, name = ''Global'', type = ''global'',
     city = None, topic = None, member_count = 0, created_at = now, updated_at = now\<rparr>"

definition message_late :: Message where
  "message_late = \<lparr>Message.tenant_id = ''default'', room_id = room_hex,
     persona_id = persona_hex, content = ''bye'', reactions = [], created_at = 7,
     updated_at = 7, deleted = False\<rparr>"

definition message_early :: Message where
  "message_early = message_late\<lparr>content := ''hi'', Message.created_at := 3\<rparr>"

definition message_db :: database where
  "message_db = example_db\<lparr>message :=
     [(Oid member_hex, message_late), (Oid ''dddddddddddddddddddddddd'', message_early)]\<rparr>"









section \<open>Properties\<close>

subsection \<open>Moderation\<close>

lemma py_in_sublist: "py_in sub s \<longleftrightarrow> sublist sub s"
  by (induction s) (auto simp: sublist_Cons_right)

text \<open>
  C8. \<^verbatim>\<open>moderate\<close> flags a text exactly when its lower-cased form contains one of the
  keywords "hate", "suicide", "spam" as a contiguous substring; "this is SPAM" is flagged and
  "hello" is not.
\<close>

theorem moderate_flags_keywords:
  "(moderate t \<longleftrightarrow>
      (\<exists>ps ss. lower t = ps @ ''hate'' @ ss) \<or> (\<exists>ps ss. lower t = ps @ ''suicide'' @ ss)
      \<or> (\<exists>ps ss. lower t = ps @ ''spam'' @ ss))
   \<and> moderate ''this is SPAM'' \<and> \<not> moderate ''hello''"
proof -
  have "moderate ''this is SPAM''" by code_simp
  moreover have "\<not> moderate ''hello''" by code_simp
  ultimately show ?thesis
    by (simp add: moderate_def py_in_sublist sublist_def)
qed

subsection \<open>Identifiers and collection operations\<close>

lemma ObjectId_room_hex: "ObjectId room_hex = Inr (Oid room_hex)"
  unfolding room_hex_def by code_simp

lemma ObjectId_persona_hex: "ObjectId persona_hex = Inr (Oid persona_hex)"
  unfolding persona_hex_def by code_simp

lemma ObjectId_Inl: "ObjectId s = Inl e \<Longrightarrow> e = InvalidId s"
  by (auto simp: ObjectId_def split: if_splits)

lemma find_one_Some: "x \<in> set c \<Longrightarrow> q x \<Longrightarrow> \<exists>y. find_one q c = Some y"
  unfolding find_one_def by (cases "List.find q c") (auto simp: find_None_iff simp del: split_paired_All split_paired_Ex)

lemma find_one_NoneI: "\<forall>x\<in>set c. \<not> q x \<Longrightarrow> find_one q c = None"
  unfolding find_one_def by (simp add: find_None_iff)

lemma update_one_twice:
  "update_one (\<lambda>x. fst x = i) u2 (update_one (\<lambda>x. fst x = i) u1 c)
     = update_one (\<lambda>x. fst x = i) (u2 \<circ> u1) c"
  by (induction c) auto

lemma update_one_keeps:
  "(\<And>r. f (u r) = f r) \<Longrightarrow> map (\<lambda>x. (fst x, f (snd x))) (update_one q u c) = map (\<lambda>x. (fst x, f (snd x))) c"
  by (induction c) auto

lemma update_one_same:
  "(\<And>r. f (u r) = f (u' r)) \<Longrightarrow>
     map (\<lambda>x. (fst x, f (snd x))) (update_one q u c) = map (\<lambda>x. (fst x, f (snd x))) (update_one q u' c)"
  by (induction c) auto

lemma update_one_distinct:
  "distinct (map fst c) \<Longrightarrow>
     update_one (\<lambda>x. fst x = i) u c = map (\<lambda>x. if fst x = i then (fst x, u (snd x)) else x) c"
proof (induction c)
  case Nil
  then show ?case by simp
next
  case (Cons x xs)
  have "fst x = i \<Longrightarrow> map (\<lambda>y. if fst y = i then (fst y, u (snd y)) else y) xs = xs"
  proof (intro map_idI)
    fix y assume "fst x = i" and "y \<in> set xs"
    with Cons.prems have "fst y \<noteq> i" by (auto simp: image_iff)
    then show "(if fst y = i then (fst y, u (snd y)) else y) = y" by simp
  qed
  with Cons show ?case by auto
qed

lemma delete_one_length:
  "length (filter q (delete_one q c)) = length (filter q c) - 1"
  by (induction c) auto

lemma delete_one_others: "filter (\<lambda>x. \<not> q x) (delete_one q c) = filter (\<lambda>x. \<not> q x) c"
  by (induction c) auto

subsection \<open>Joining and leaving a room\<close>

text \<open>
  C2. For a room and a persona that exist in the tenant (identifiers well formed), \<^verbatim>\<open>join\<close>
  followed at once by \<^verbatim>\<open>leave\<close> with the same arguments succeeds twice and leaves the
  \<^verbatim>\<open>member_count\<close> of every stored room, the joined one included, at its value before the
  join; in between, the count of the room with that identifier is one higher.
\<close>

theorem join_then_leave_restores_member_count:
  assumes "ObjectId room_id' = Inr rid" and "ObjectId persona_id' = Inr pid"
    and "(rid, r) \<in> set (room d)" and "Room.tenant_id r = tenant"
    and "(pid, p) \<in> set (persona d)" and "Persona.tenant_id p = tenant"
  shows "\<exists>d1 d2.
     join_room room_id' persona_id' tenant now1 new_id (Some d) = (Inr True, Some d1)
     \<and> leave_room room_id' persona_id' tenant now2 (Some d1) = (Inr True, Some d2)
     \<and> map (\<lambda>x. (fst x, member_count (snd x))) (room d2)
         = map (\<lambda>x. (fst x, member_count (snd x))) (room d)
     \<and> map (\<lambda>x. (fst x, member_count (snd x))) (room d1)
         = map (\<lambda>x. (fst x, member_count (snd x)))
             (update_one (\<lambda>x. fst x = rid) (\<lambda>r. r\<lparr>member_count := member_count r + 1\<rparr>) (room d))"
proof -
  obtain fr where fr: "find_one (\<lambda>x. fst x = rid \<and> Room.tenant_id (snd x) = tenant) (room d) = Some fr"
    using find_one_Some [OF assms(3), of "\<lambda>x. fst x = rid \<and> Room.tenant_id (snd x) = tenant"] assms(4)
    by auto
  obtain fp where fp: "find_one (\<lambda>x. fst x = pid \<and> Persona.tenant_id (snd x) = tenant) (persona d) = Some fp"
    using find_one_Some [OF assms(5), of "\<lambda>x. fst x = pid \<and> Persona.tenant_id (snd x) = tenant"] assms(6)
    by auto
  show ?thesis
    using assms(1,2) fr fp
    by (simp add: join_room_def leave_room_def Let_def update_one_twice)
      (auto intro: update_one_keeps update_one_same)
qed

theorem join_then_leave_restores_member_count_witness:
  "ObjectId room_hex = Inr (Oid room_hex) \<and> ObjectId persona_hex = Inr (Oid persona_hex)
   \<and> (Oid room_hex, example_room) \<in> set (room example_db)
   \<and> Room.tenant_id example_room = ''default''
   \<and> (Oid persona_hex, example_persona) \<in> set (persona example_db)
   \<and> Persona.tenant_id example_persona = ''default''
   \<and> (\<exists>d1 d2.
     join_room room_hex persona_hex ''default'' 30 (Oid member_hex) (Some example_db)
       = (Inr True, Some d1)
     \<and> leave_room room_hex persona_hex ''default'' 40 (Some d1) = (Inr True, Some d2)
     \<and> map (\<lambda>x. (fst x, member_count (snd x))) (room d2) = [(Oid room_hex, 1)]
     \<and> map (\<lambda>x. (fst x, member_count (snd x))) (room d1) = [(Oid room_hex, 2)])"
proof -
  have h3: "(Oid room_hex, example_room) \<in> set (room example_db)"
    by (simp add: example_db_def)
  have h4: "Room.tenant_id example_room = ''default''"
    by (simp add: example_room_def)
  have h5: "(Oid persona_hex, example_persona) \<in> set (persona example_db)"
    by (simp add: example_db_def)
  have h6: "Persona.tenant_id example_persona = ''default''"
    by (simp add: example_persona_def)
  have m: "map (\<lambda>x. (fst x, member_count (snd x))) (room example_db) = [(Oid room_hex, 1)]"
    by (simp add: example_db_def example_room_def)
  have m1: "map (\<lambda>x. (fst x, member_count (snd x)))
      (update_one (\<lambda>x. fst x = Oid room_hex) (\<lambda>r. r\<lparr>member_count := member_count r + 1\<rparr>)
        (room example_db)) = [(Oid room_hex, 2)]"
    by (simp add: example_db_def example_room_def)
  show ?thesis
    using join_then_leave_restores_member_count
      [OF ObjectId_room_hex ObjectId_persona_hex h3 h4 h5 h6, of 30 "Oid member_hex" 40]
      ObjectId_room_hex ObjectId_persona_hex h3 h4 h5 h6
    unfolding m m1 by simp
qed

text \<open>
  C7. When the membership (tenant, room id, persona id) is already stored, \<^verbatim>\<open>join\<close> leaves
  the member collection as it is, so the stored \<^verbatim>\<open>joined_at\<close> is not overwritten, and still
  adds 1 to the room's \<^verbatim>\<open>member_count\<close> and sets its \<^verbatim>\<open>updated_at\<close> to the current
  time. Stored rooms have distinct identifiers, as the database guarantees for \<^verbatim>\<open>_id\<close>.
\<close>

theorem join_room_existing_membership:
  assumes "ObjectId room_id' = Inr rid" and "ObjectId persona_id' = Inr pid"
    and "(rid, r) \<in> set (room d)" and "Room.tenant_id r = tenant"
    and "(pid, p) \<in> set (persona d)" and "Persona.tenant_id p = tenant"
    and "distinct (map fst (room d))"
    and "m \<in> set (roommember d)" and "is_member tenant room_id' persona_id' m"
  shows "\<exists>d'. join_room room_id' persona_id' tenant now new_id (Some d) = (Inr True, Some d')
     \<and> roommember d' = roommember d
     \<and> (rid, r\<lparr>member_count := member_count r + 1, Room.updated_at := now\<rparr>) \<in> set (room d')
     \<and> room d' = map (\<lambda>x. if fst x = rid
            then (rid, (snd x)\<lparr>member_count := member_count (snd x) + 1, Room.updated_at := now\<rparr>)
            else x) (room d)"
proof -
  obtain fr where fr: "find_one (\<lambda>x. fst x = rid \<and> Room.tenant_id (snd x) = tenant) (room d) = Some fr"
    using find_one_Some [OF assms(3), of "\<lambda>x. fst x = rid \<and> Room.tenant_id (snd x) = tenant"] assms(4)
    by auto
  obtain fp where fp: "find_one (\<lambda>x. fst x = pid \<and> Persona.tenant_id (snd x) = tenant) (persona d) = Some fp"
    using find_one_Some [OF assms(5), of "\<lambda>x. fst x = pid \<and> Persona.tenant_id (snd x) = tenant"] assms(6)
    by auto
  obtain fm where fm: "find_one (is_member tenant room_id' persona_id') (roommember d) = Some fm"
    using find_one_Some [of m "roommember d" "is_member tenant room_id' persona_id'"] assms(8,9)
    by auto
  let ?u = "\<lambda>r. r\<lparr>member_count := member_count r + 1, Room.updated_at := now\<rparr>"
  have upd: "update_one (\<lambda>x. fst x = rid) ?u (room d)
      = map (\<lambda>x. if fst x = rid then (rid, ?u (snd x)) else x) (room d)"
    using update_one_distinct [OF assms(7), of rid ?u]
    by (simp cong: if_cong)
  have mem: "(rid, ?u r) \<in> set (map (\<lambda>x. if fst x = rid then (rid, ?u (snd x)) else x) (room d))"
    using assms(3) by (force simp: image_iff)
  show ?thesis
    using assms(1,2) fr fp fm mem
    by (simp add: join_room_def Let_def upsert_set_on_insert_def upd)
qed

theorem join_room_existing_membership_witness:
  "ObjectId room_hex = Inr (Oid room_hex) \<and> ObjectId persona_hex = Inr (Oid persona_hex)
   \<and> (Oid room_hex, example_room) \<in> set (room example_db)
   \<and> Room.tenant_id example_room = ''default''
   \<and> (Oid persona_hex, example_persona) \<in> set (persona example_db)
   \<and> Persona.tenant_id example_persona = ''default''
   \<and> distinct (map fst (room example_db))
   \<and> (Oid member_hex, example_member) \<in> set (roommember example_db)
   \<and> is_member ''default'' room_hex persona_hex (Oid member_hex, example_member)
   \<and> (\<exists>d'. join_room room_hex persona_hex ''default'' 30 (Oid ''dddddddddddddddddddddddd'')
          (Some example_db) = (Inr True, Some d')
     \<and> roommember d' = [(Oid member_hex, example_member)]
     \<and> RoomMember.joined_at example_member = 20
     \<and> room d' = [(Oid room_hex, example_room\<lparr>member_count := 2, Room.updated_at := 30\<rparr>)])"
proof -
  have h3: "(Oid room_hex, example_room) \<in> set (room example_db)"
    by (simp add: example_db_def)
  have h4: "Room.tenant_id example_room = ''default''"
    by (simp add: example_room_def)
  have h5: "(Oid persona_hex, example_persona) \<in> set (persona example_db)"
    by (simp add: example_db_def)
  have h6: "Persona.tenant_id example_persona = ''default''"
    by (simp add: example_persona_def)
  have h7: "distinct (map fst (room example_db))"
    by (simp add: example_db_def)
  have h8: "(Oid member_hex, example_member) \<in> set (roommember example_db)"
    by (simp add: example_db_def)
  have h9: "is_member ''default'' room_hex persona_hex (Oid member_hex, example_member)"
    by (simp add: is_member_def example_member_def)
  have e: "roommember example_db = [(Oid member_hex, example_member)]"
     "room example_db = [(Oid room_hex, example_room)]"
     "member_count example_room + 1 = 2" "RoomMember.joined_at example_member = 20"
    by (simp_all add: example_db_def example_room_def example_member_def)
  show ?thesis
    using join_room_existing_membership
      [OF ObjectId_room_hex ObjectId_persona_hex h3 h4 h5 h6 h7 h8 h9,
        of 30 "Oid ''dddddddddddddddddddddddd''"]
      ObjectId_room_hex ObjectId_persona_hex h3 h4 h5 h6 h7 h8 h9
    by (auto simp: e)
qed

text \<open>
  C9. For a malformed \<^verbatim>\<open>room_id\<close>, \<^verbatim>\<open>leave\<close> on an available database raises the
  driver's \<^verbatim>\<open>InvalidId\<close> itself, not the \<^verbatim>\<open>HTTPException(400)\<close> that \<^verbatim>\<open>join\<close> raises for
  the same identifier; no room is changed, and the member collection has lost the first
  record matching (tenant, room id text, persona id) if there was one: the delete is not
  undone.
\<close>

theorem leave_room_malformed_room_id:
  assumes "ObjectId room_id' = Inl e"
  shows "\<exists>d'. leave_room room_id' persona_id' tenant now (Some d)
        = (Inl (InvalidId room_id'), Some d')
     \<and> room d' = room d
     \<and> length (filter (is_member tenant room_id' persona_id') (roommember d'))
         = length (filter (is_member tenant room_id' persona_id') (roommember d)) - 1
     \<and> filter (\<lambda>x. \<not> is_member tenant room_id' persona_id' x) (roommember d')
         = filter (\<lambda>x. \<not> is_member tenant room_id' persona_id' x) (roommember d)
     \<and> join_room room_id' persona_id' tenant now new_id (Some d)
         = (Inl (HTTPException 400 ''Invalid ids''), Some d)"
  using assms ObjectId_Inl [OF assms]
  by (simp add: leave_room_def join_room_def Let_def delete_one_length delete_one_others)

theorem leave_room_malformed_room_id_witness:
  "ObjectId ''not-an-id'' = Inl (InvalidId ''not-an-id'')
   \<and> (\<exists>d'. leave_room ''not-an-id'' persona_hex ''default'' 40 (Some stale_db)
        = (Inl (InvalidId ''not-an-id''), Some d')
     \<and> room d' = room stale_db
     \<and> roommember stale_db = [(Oid member_hex, stale_member)]
     \<and> roommember d' = [])"
proof -
  have h: "ObjectId ''not-an-id'' = Inl (InvalidId ''not-an-id'')"
    by (simp add: ObjectId_def)
  have m: "is_member ''default'' ''not-an-id'' persona_hex (Oid member_hex, stale_member)"
    by (simp add: is_member_def stale_member_def)
  have r: "roommember stale_db = [(Oid member_hex, stale_member)]"
    by (simp add: stale_db_def)
  from leave_room_malformed_room_id [OF h, of persona_hex "''default''" 40 stale_db]
  obtain d' where d': "leave_room ''not-an-id'' persona_hex ''default'' 40 (Some stale_db)
        = (Inl (InvalidId ''not-an-id''), Some d')" "room d' = room stale_db"
     "length (filter (is_member ''default'' ''not-an-id'' persona_hex) (roommember d'))
         = length (filter (is_member ''default'' ''not-an-id'' persona_hex) (roommember stale_db)) - 1"
     "filter (\<lambda>x. \<not> is_member ''default'' ''not-an-id'' persona_hex x) (roommember d')
         = filter (\<lambda>x. \<not> is_member ''default'' ''not-an-id'' persona_hex x) (roommember stale_db)"
    by blast
  have "filter (is_member ''default'' ''not-an-id'' persona_hex) (roommember d') = []"
    using d'(3) m by (simp add: r)
  moreover have "filter (\<lambda>x. \<not> is_member ''default'' ''not-an-id'' persona_hex x) (roommember d') = []"
    using d'(4) m by (simp add: r)
  ultimately have "roommember d' = []"
    by (metis filter_True filter_empty_conv)
  with h d'(1,2) r show ?thesis by blast
qed

text \<open>
  C1. Tenant isolation does not hold for \<^verbatim>\<open>leave\<close>: its room update filters on \<^verbatim>\<open>_id\<close>
  alone and nothing checks the room's tenant first. A request of tenant "tenant-a" naming a
  room of "tenant-b" lowers that room's \<^verbatim>\<open>member_count\<close> and rewrites its
  \<^verbatim>\<open>updated_at\<close>; \<^verbatim>\<open>join\<close> on the same input looks the room up with the tenant and
  answers 404 without writing.
\<close>

theorem leave_room_writes_other_tenant:
  "Room.tenant_id tenant_b_room = ''tenant-b''
   \<and> leave_room room_hex persona_hex ''tenant-a'' 50 (Some tenant_b_db)
     = (Inr True, Some (tenant_b_db\<lparr>room :=
          [(Oid room_hex, tenant_b_room\<lparr>member_count := - 1, Room.updated_at := 50\<rparr>)]\<rparr>))
   \<and> join_room room_hex persona_hex ''tenant-a'' 50 (Oid member_hex) (Some tenant_b_db)
     = (Inl (HTTPException 404 ''Room not found''), Some tenant_b_db)"
  by (simp add: leave_room_def join_room_def ObjectId_room_hex ObjectId_persona_hex
      tenant_b_db_def tenant_b_room_def find_one_def)

subsection \<open>Creating a persona\<close>

text \<open>
  C5. When a persona with the payload's handle is stored for the tenant, \<^verbatim>\<open>create_persona\<close>
  raises \<^verbatim>\<open>HTTPException(400, "Handle already taken")\<close> and the database is unchanged. In
  another tenant, one that holds no persona with that handle, the same payload succeeds: the
  new document, with that tenant and handle, is appended to the collection and returned with
  its identifier.
\<close>

theorem create_persona_duplicate_handle:
  assumes "(i, p) \<in> set (persona d)" and "Persona.tenant_id p = tenant"
    and "Persona.handle p = PersonaCreate.handle payload"
  shows "create_persona payload tenant now new_id (Some d)
       = (Inl (HTTPException 400 ''Handle already taken''), Some d)
     \<and> ((\<forall>x\<in>set (persona d). Persona.handle (snd x) = PersonaCreate.handle payload
            \<longrightarrow> Persona.tenant_id (snd x) \<noteq> tenant') \<longrightarrow>
        (\<exists>doc. create_persona payload tenant' now new_id (Some d)
             = (Inr (str_oid new_id, doc), Some (d\<lparr>persona := persona d @ [(new_id, doc)]\<rparr>))
           \<and> Persona.tenant_id doc = tenant'
           \<and> Persona.handle doc = PersonaCreate.handle payload))"
proof -
  let ?q = "\<lambda>t x. Persona.tenant_id (snd x) = t \<and> Persona.handle (snd x) = PersonaCreate.handle payload"
  obtain y where "find_one (?q tenant) (persona d) = Some y"
    using find_one_Some [of "(i, p)" "persona d" "?q tenant"] assms by auto
  then have dup: "create_persona payload tenant now new_id (Some d)
       = (Inl (HTTPException 400 ''Handle already taken''), Some d)"
    by (simp add: create_persona_def)
  have "find_one (?q tenant') (persona d) = None"
    if "\<forall>x\<in>set (persona d). Persona.handle (snd x) = PersonaCreate.handle payload
            \<longrightarrow> Persona.tenant_id (snd x) \<noteq> tenant'"
    using that by (intro find_one_NoneI) auto
  then show ?thesis
    using dup by (auto simp: create_persona_def Let_def insert_one_def)
qed

theorem create_persona_duplicate_handle_witness:
  "(Oid persona_hex, example_persona) \<in> set (persona example_db)
   \<and> Persona.tenant_id example_persona = ''default''
   \<and> Persona.handle example_persona = PersonaCreate.handle alice_payload
   \<and> create_persona alice_payload ''default'' 30 (Oid member_hex) (Some example_db)
       = (Inl (HTTPException 400 ''Handle already taken''), Some example_db)
   \<and> persona example_db = [(Oid persona_hex, example_persona)]
   \<and> (\<exists>doc. create_persona alice_payload ''tenant-b'' 30 (Oid member_hex) (Some example_db)
             = (Inr (member_hex, doc),
                Some (example_db\<lparr>persona := [(Oid persona_hex, example_persona), (Oid member_hex, doc)]\<rparr>))
           \<and> Persona.tenant_id doc = ''tenant-b''
           \<and> Persona.handle doc = ''alice'')"
proof -
  have h1: "(Oid persona_hex, example_persona) \<in> set (persona example_db)"
    by (simp add: example_db_def)
  have h2: "Persona.tenant_id example_persona = ''default''"
    by (simp add: example_persona_def)
  have h3: "Persona.handle example_persona = PersonaCreate.handle alice_payload"
    by (simp add: example_persona_def alice_payload_def)
  have h4: "\<forall>x\<in>set (persona example_db). Persona.handle (snd x) = PersonaCreate.handle alice_payload
            \<longrightarrow> Persona.tenant_id (snd x) \<noteq> ''tenant-b''"
    by (simp add: example_db_def example_persona_def)
  have e: "persona example_db = [(Oid persona_hex, example_persona)]"
    "PersonaCreate.handle alice_payload = ''alice''"
    by (simp_all add: example_db_def alice_payload_def)
  show ?thesis
    using create_persona_duplicate_handle [OF h1 h2 h3, of 30 "Oid member_hex" "''tenant-b''"]
      h1 h2 h3 h4
    by (simp add: e)
qed

subsection \<open>Startup\<close>

lemma ensure_global_room_absent:
  "filter (is_global_room TENANT_DEFAULT) (room d) = [] \<Longrightarrow>
     ensure_global_room now new_id (Some d)
       = Some (d\<lparr>room := room d @ [(new_id, global_room_doc now)]\<rparr>)"
  by (cases "find_one (is_global_room TENANT_DEFAULT) (room d)")
    (auto simp: ensure_global_room_def find_one_def find_Some_iff filter_empty_conv
      insert_one_def global_room_doc_def)

lemma ensure_global_room_present:
  "filter (is_global_room TENANT_DEFAULT) (room d) \<noteq> [] \<Longrightarrow>
     ensure_global_room now new_id (Some d) = Some d"
  by (cases "find_one (is_global_room TENANT_DEFAULT) (room d)")
    (auto simp: ensure_global_room_def find_one_def find_None_iff filter_empty_conv)

lemma is_global_room_doc: "is_global_room t (i, global_room_doc now) \<longleftrightarrow> t = TENANT_DEFAULT"
  by (auto simp: is_global_room_def global_room_doc_def)

text \<open>
  C4, as the code has it. \<^verbatim>\<open>ensure_global_room\<close> looks at the tenant \<^verbatim>\<open>TENANT_DEFAULT\<close>
  only. On an available database with at most one Global room for that tenant, running it
  twice leaves exactly one such room there: the first run appends the room (member count 0,
  both timestamps the current time) when it is absent, the second run changes nothing, and
  the rooms of every other tenant are as before.
\<close>

theorem ensure_global_room_twice:
  assumes "length (filter (is_global_room TENANT_DEFAULT) (room d)) \<le> 1"
  shows "\<exists>d'. ensure_global_room now1 id1 (Some d) = Some d'
     \<and> ensure_global_room now2 id2 (Some d') = Some d'
     \<and> length (filter (is_global_room TENANT_DEFAULT) (room d')) = 1
     \<and> (room d' = room d \<or> room d' = room d @ [(id1, global_room_doc now1)])
     \<and> (\<forall>t. t \<noteq> TENANT_DEFAULT \<longrightarrow>
          filter (\<lambda>x. Room.tenant_id (snd x) = t) (room d')
            = filter (\<lambda>x. Room.tenant_id (snd x) = t) (room d))"
proof (cases "filter (is_global_room TENANT_DEFAULT) (room d) = []")
  case True
  let ?d' = "d\<lparr>room := room d @ [(id1, global_room_doc now1)]\<rparr>"
  have 1: "ensure_global_room now1 id1 (Some d) = Some ?d'"
    by (rule ensure_global_room_absent [OF True])
  have g: "filter (is_global_room TENANT_DEFAULT) (room ?d') = [(id1, global_room_doc now1)]"
    using True by (simp add: is_global_room_doc)
  have 2: "ensure_global_room now2 id2 (Some ?d') = Some ?d'"
    by (rule ensure_global_room_present) (simp only: g, simp)
  have 3: "filter (\<lambda>x. Room.tenant_id (snd x) = t) (room ?d')
            = filter (\<lambda>x. Room.tenant_id (snd x) = t) (room d)" if "t \<noteq> TENANT_DEFAULT" for t
    using that by (auto simp: global_room_doc_def)
  show ?thesis
    using 1 2 3 g by (intro exI [of _ ?d']) simp
next
  case False
  then have 1: "ensure_global_room now id (Some d) = Some d" for now id
    by (rule ensure_global_room_present)
  have "length (filter (is_global_room TENANT_DEFAULT) (room d)) = 1"
    using False assms by (cases "filter (is_global_room TENANT_DEFAULT) (room d)") auto
  then show ?thesis
    using 1 by (intro exI [of _ d]) simp
qed

theorem ensure_global_room_twice_witness:
  "length (filter (is_global_room TENANT_DEFAULT) (room tenant_b_db)) \<le> 1
   \<and> (\<exists>d'. ensure_global_room 1 (Oid persona_hex) (Some tenant_b_db) = Some d'
     \<and> ensure_global_room 2 (Oid member_hex) (Some d') = Some d'
     \<and> room d' = [(Oid room_hex, tenant_b_room), (Oid persona_hex, global_room_doc 1)]
     \<and> length (filter (is_global_room TENANT_DEFAULT) (room d')) = 1)"
proof -
  have h: "length (filter (is_global_room TENANT_DEFAULT) (room tenant_b_db)) \<le> 1"
    by (simp add: tenant_b_db_def tenant_b_room_def is_global_room_def)
  have r: "room tenant_b_db = [(Oid room_hex, tenant_b_room)]"
    by (simp add: tenant_b_db_def)
  have n: "\<not> is_global_room TENANT_DEFAULT (Oid room_hex, tenant_b_room)"
    by (simp add: tenant_b_room_def is_global_room_def)
  from ensure_global_room_twice [OF h, of 1 "Oid persona_hex" 2 "Oid member_hex"]
  obtain d' where d': "ensure_global_room 1 (Oid persona_hex) (Some tenant_b_db) = Some d'"
    "ensure_global_room 2 (Oid member_hex) (Some d') = Some d'"
    "length (filter (is_global_room TENANT_DEFAULT) (room d')) = 1"
    "room d' = room tenant_b_db \<or> room d' = room tenant_b_db @ [(Oid persona_hex, global_room_doc 1)]"
    by blast
  have "room d' \<noteq> room tenant_b_db"
    using d'(3) n by (auto simp: r)
  with d'(4) have "room d' = [(Oid room_hex, tenant_b_room), (Oid persona_hex, global_room_doc 1)]"
    by (simp add: r)
  with h d'(1,2,3) show ?thesis by blast
qed

text \<open>
  C4 as stated fails: after two runs on a database that holds a room of "tenant-b", that
  tenant still has no room with type "global" and name "Global".
\<close>

theorem ensure_global_room_skips_other_tenants:
  "ensure_global_room 2 (Oid member_hex) (ensure_global_room 1 (Oid persona_hex) (Some tenant_b_db))
     = Some (tenant_b_db\<lparr>room := [(Oid room_hex, tenant_b_room), (Oid persona_hex, global_room_doc 1)]\<rparr>)
   \<and> Room.tenant_id tenant_b_room = ''tenant-b''
   \<and> filter (is_global_room ''tenant-b'')
       [(Oid room_hex, tenant_b_room), (Oid persona_hex, global_room_doc 1)] = []"
proof -
  have a: "filter (is_global_room TENANT_DEFAULT) (room tenant_b_db) = []"
    by (simp add: tenant_b_db_def tenant_b_room_def is_global_room_def)
  have b: "filter (is_global_room TENANT_DEFAULT)
      (room (tenant_b_db\<lparr>room := room tenant_b_db @ [(Oid persona_hex, global_room_doc 1)]\<rparr>)) \<noteq> []"
    by (simp add: is_global_room_doc)
  have r: "room tenant_b_db = [(Oid room_hex, tenant_b_room)]"
    by (simp add: tenant_b_db_def)
  have c: "\<not> is_global_room ''tenant-b'' (Oid room_hex, tenant_b_room)"
    "\<not> is_global_room ''tenant-b'' (Oid persona_hex, global_room_doc 1)"
    by (simp_all add: is_global_room_def tenant_b_room_def global_room_doc_def TENANT_DEFAULT_def)
  have t: "Room.tenant_id tenant_b_room = ''tenant-b''"
    by (simp add: tenant_b_room_def)
  have "ensure_global_room 2 (Oid member_hex)
      (ensure_global_room 1 (Oid persona_hex) (Some tenant_b_db))
     = Some (tenant_b_db\<lparr>room := room tenant_b_db @ [(Oid persona_hex, global_room_doc 1)]\<rparr>)"
    by (simp only: ensure_global_room_absent [OF a] ensure_global_room_present [OF b])
  then show ?thesis
    using c t by (simp add: r)
qed

subsection \<open>Listing messages\<close>

lemma sorted_take_drop_le:
  "sorted (map f xs) \<Longrightarrow> x \<in> set (take n xs) \<Longrightarrow> y \<in> set (drop n xs) \<Longrightarrow> f x \<le> f y"
proof -
  assume s: "sorted (map f xs)" and x: "x \<in> set (take n xs)" and y: "y \<in> set (drop n xs)"
  have "sorted (map f (take n xs) @ map f (drop n xs))"
    using s by (simp add: map_append [symmetric] del: map_append)
  with x y show ?thesis
    by (auto simp: sorted_append)
qed

lemma list_messages_example:
  "cursor_sort Message.created_at 1
     (find_docs (\<lambda>x. Message.tenant_id (snd x) = ''default'' \<and> Message.room_id (snd x) = room_hex)
        (message message_db))
   = [(Oid ''dddddddddddddddddddddddd'', message_early), (Oid member_hex, message_late)]"
  by (simp add: cursor_sort_def find_docs_def message_db_def message_late_def message_early_def)

lemma room_messages_example:
  "filter (\<lambda>x. Message.tenant_id (snd x) = ''default'' \<and> Message.room_id (snd x) = room_hex)
     (message message_db)
   = [(Oid member_hex, message_late), (Oid ''dddddddddddddddddddddddd'', message_early)]"
  by (simp add: message_db_def message_late_def message_early_def)

text \<open>
  C6, as the code has it. On an available database and for a well-formed \<^verbatim>\<open>room_id\<close>,
  \<^verbatim>\<open>list_messages\<close> returns the room's messages (those of the tenant with that
  \<^verbatim>\<open>room_id\<close>) in non-decreasing \<^verbatim>\<open>created_at\<close> order: the returned items together with
  the items left out are exactly the room's messages, each with its identifier as text, and
  no item left out was created before a returned one. When \<^verbatim>\<open>limit\<close> is positive the
  result has \<open>min limit n\<close> items, \<open>n\<close> the number of the room's messages, so never more
  than \<^verbatim>\<open>limit\<close>. For a malformed \<^verbatim>\<open>room_id\<close> it raises
  \<^verbatim>\<open>HTTPException(400, "Invalid room id")\<close>.
\<close>

theorem list_messages_sorted_capped:
  "(ObjectId room_id' = Inr rid \<longrightarrow>
      (\<exists>items rest. list_messages room_id' limit tenant (Some d) = Inr items
         \<and> mset (items @ rest) = mset (map to_str_id (filter (\<lambda>x.
               Message.tenant_id (snd x) = tenant \<and> Message.room_id (snd x) = room_id') (message d)))
         \<and> sorted (map (\<lambda>m. Message.created_at (snd m)) items)
         \<and> (\<forall>x\<in>set items. \<forall>y\<in>set rest.
               Message.created_at (snd x) \<le> Message.created_at (snd y))
         \<and> (0 < limit \<longrightarrow> int (length items) \<le> limit
               \<and> length items = min (nat limit) (length (filter (\<lambda>x.
                  Message.tenant_id (snd x) = tenant \<and> Message.room_id (snd x) = room_id')
                  (message d))))
         \<and> set items \<subseteq> to_str_id ` {x \<in> set (message d).
               Message.tenant_id (snd x) = tenant \<and> Message.room_id (snd x) = room_id'}))
   \<and> (ObjectId room_id' = Inl e \<longrightarrow>
        list_messages room_id' limit tenant (Some d) = Inl (HTTPException 400 ''Invalid room id''))"
proof -
  let ?q = "\<lambda>x. Message.tenant_id (snd x) = tenant \<and> Message.room_id (snd x) = room_id'"
  let ?k = "\<lambda>m :: oid \<times> Message. Message.created_at (snd m)"
  let ?k' = "\<lambda>m :: string \<times> Message. Message.created_at (snd m)"
  let ?xs = "sort_key ?k (filter ?q (message d))"
  define n where "n = (if limit = 0 then length ?xs else nat \<bar>limit\<bar>)"
  let ?items = "map to_str_id (take n ?xs)"
  let ?rest = "map to_str_id (drop n ?xs)"
  have k: "?k' (to_str_id x) = ?k x" for x
    by (cases x) simp
  have c: "cursor_limit limit (cursor_sort Message.created_at 1 (find_docs ?q (message d)))
      = take n ?xs"
    by (simp add: n_def cursor_limit_def cursor_sort_def find_docs_def)
  have 1: "list_messages room_id' limit tenant (Some d) = Inr ?items" if "ObjectId room_id' = Inr rid"
    using that by (simp add: list_messages_def c del: take_all_iff)
  have "?items @ ?rest = map to_str_id ?xs"
    by (simp only: map_append [symmetric] append_take_drop_id)
  then have 2: "mset (?items @ ?rest) = mset (map to_str_id (filter ?q (message d)))"
    by (simp only: mset_map mset_sort)
  have s: "sorted (map ?k ?xs)"
    by simp
  have 3: "sorted (map ?k' ?items)"
    using s by (simp add: o_def k take_map [symmetric] sorted_wrt_take del: take_all_iff)
  have 4: "?k' x \<le> ?k' y" if "x \<in> set ?items" "y \<in> set ?rest" for x y
  proof -
    from that obtain a b where "a \<in> set (take n ?xs)" "x = to_str_id a"
      "b \<in> set (drop n ?xs)" "y = to_str_id b"
      by auto
    with sorted_take_drop_le [OF s, of a n b] show ?thesis
      by (simp only: k)
  qed
  have 5: "int (length ?items) \<le> limit
      \<and> length ?items = min (nat limit) (length (filter ?q (message d)))" if "0 < limit"
  proof -
    from that have n: "n = nat limit" by (simp add: n_def)
    have "length ?items = min (length ?xs) n"
      by (simp only: length_map length_take)
    then have l: "length ?items = min (nat limit) (length (filter ?q (message d)))"
      by (simp only: n length_sort min.commute)
    then have "length ?items \<le> nat limit" by simp
    with that have i: "int (length ?items) \<le> limit" by linarith
    from i l show ?thesis by (rule conjI)
  qed
  have "set (take n ?xs) \<subseteq> {x \<in> set (message d). ?q x}"
    by (auto dest: in_set_takeD)
  then have 6: "set ?items \<subseteq> to_str_id ` {x \<in> set (message d). ?q x}"
    by (simp only: set_map image_mono)
  have 7: "list_messages room_id' limit tenant (Some d) = Inl (HTTPException 400 ''Invalid room id'')"
    if "ObjectId room_id' = Inl e"
    using that by (simp add: list_messages_def)
  show ?thesis
  proof (intro conjI impI)
    assume "ObjectId room_id' = Inr rid"
    from 1 [OF this] 2 3 4 5 6
    show "\<exists>items rest. list_messages room_id' limit tenant (Some d) = Inr items
         \<and> mset (items @ rest) = mset (map to_str_id (filter ?q (message d)))
         \<and> sorted (map ?k' items)
         \<and> (\<forall>x\<in>set items. \<forall>y\<in>set rest. ?k' x \<le> ?k' y)
         \<and> (0 < limit \<longrightarrow> int (length items) \<le> limit
               \<and> length items = min (nat limit) (length (filter ?q (message d))))
         \<and> set items \<subseteq> to_str_id ` {x \<in> set (message d). ?q x}"
      by (intro exI [of _ ?items] exI [of _ ?rest]) blast
  next
    assume "ObjectId room_id' = Inl e"
    then show "list_messages room_id' limit tenant (Some d) = Inl (HTTPException 400 ''Invalid room id'')"
      by (rule 7)
  qed
qed

theorem list_messages_sorted_capped_witness:
  "ObjectId room_hex = Inr (Oid room_hex) \<and> (0::int) < 1
   \<and> (\<exists>items rest. list_messages room_hex 1 ''default'' (Some message_db) = Inr items
         \<and> items = [(''dddddddddddddddddddddddd'', message_early)]
         \<and> mset (items @ rest)
             = mset [(member_hex, message_late), (''dddddddddddddddddddddddd'', message_early)]
         \<and> sorted (map (\<lambda>m. Message.created_at (snd m)) items)
         \<and> int (length items) \<le> 1 \<and> length items = min (nat 1) 2)
   \<and> ObjectId ''not-an-id'' = Inl (InvalidId ''not-an-id'')
   \<and> list_messages ''not-an-id'' 1 ''default'' (Some message_db)
       = Inl (HTTPException 400 ''Invalid room id'')"
proof -
  have h: "ObjectId ''not-an-id'' = Inl (InvalidId ''not-an-id'')"
    by (simp add: ObjectId_def)
  have v: "list_messages room_hex 1 ''default'' (Some message_db)
      = Inr [(''dddddddddddddddddddddddd'', message_early)]"
    by (simp add: list_messages_def ObjectId_room_hex list_messages_example cursor_limit_def)
  from list_messages_sorted_capped
        [of room_hex "Oid room_hex" 1 "''default''" message_db "InvalidId room_hex"]
    ObjectId_room_hex
  obtain items rest where i: "list_messages room_hex 1 ''default'' (Some message_db) = Inr items"
    "mset (items @ rest) = mset (map to_str_id (filter (\<lambda>x.
        Message.tenant_id (snd x) = ''default'' \<and> Message.room_id (snd x) = room_hex)
        (message message_db)))"
    "sorted (map (\<lambda>m. Message.created_at (snd m)) items)"
    "(0::int) < 1 \<longrightarrow> int (length items) \<le> 1
       \<and> length items = min (nat 1) (length (filter (\<lambda>x.
        Message.tenant_id (snd x) = ''default'' \<and> Message.room_id (snd x) = room_hex)
        (message message_db)))"
    by blast
  from i(1) v have e: "items = [(''dddddddddddddddddddddddd'', message_early)]"
    by simp
  have m: "mset (items @ rest)
      = mset [(member_hex, message_late), (''dddddddddddddddddddddddd'', message_early)]"
    using i(2) by (simp add: room_messages_example)
  have l: "int (length items) \<le> 1 \<and> length items = min (nat 1) 2"
    using i(4) by (simp add: room_messages_example)
  from list_messages_sorted_capped
        [of "''not-an-id''" "Oid room_hex" 1 "''default''" message_db "InvalidId ''not-an-id''"] h
  have b: "list_messages ''not-an-id'' 1 ''default'' (Some message_db)
       = Inl (HTTPException 400 ''Invalid room id'')"
    by blast
  from i(1,3) e m l
  have "\<exists>items rest. list_messages room_hex 1 ''default'' (Some message_db) = Inr items
         \<and> items = [(''dddddddddddddddddddddddd'', message_early)]
         \<and> mset (items @ rest)
             = mset [(member_hex, message_late), (''dddddddddddddddddddddddd'', message_early)]
         \<and> sorted (map (\<lambda>m. Message.created_at (snd m)) items)
         \<and> int (length items) \<le> 1 \<and> length items = min (nat 1) 2"
    by blast
  with ObjectId_room_hex h b show ?thesis
    by (simp only: simp_thms zero_less_one)
qed

text \<open>
  C6 as stated fails for a limit that is not positive: the handler passes \<^verbatim>\<open>limit\<close> to the
  cursor unchecked, where 0 means no limit and -1 means one document, so two messages come
  back for \<^verbatim>\<open>limit=0\<close> and one for \<^verbatim>\<open>limit=-1\<close>.
\<close>

theorem list_messages_limit_not_cap:
  "list_messages room_hex 0 ''default'' (Some message_db)
     = Inr [(''dddddddddddddddddddddddd'', message_early), (member_hex, message_late)]
   \<and> \<not> int (length [(''dddddddddddddddddddddddd'', message_early), (member_hex, message_late)]) \<le> 0
   \<and> list_messages room_hex (- 1) ''default'' (Some message_db)
     = Inr [(''dddddddddddddddddddddddd'', message_early)]
   \<and> \<not> int (length [(''dddddddddddddddddddddddd'', message_early)]) \<le> - 1"
  by (simp add: list_messages_def ObjectId_room_hex list_messages_example cursor_limit_def)

subsection \<open>Nearby alerts\<close>

text \<open>
  The argument of \<^verbatim>\<open>sqrt\<close> and \<^verbatim>\<open>asin\<close> in \<^verbatim>\<open>haversine\<close> is a convex combination of
  two numbers in \<open>[0, 1]\<close>, for every latitude and longitude, so over the reals neither
  function is called outside its domain.
\<close>

lemma haversine_a_alt:
  "haversine_a lat1 lon1 lat2 lon2 =
     (1 - (sin (radians (lon2 - lon1) / 2))\<^sup>2) * ((1 - cos (radians lat2 - radians lat1)) / 2)
     + (sin (radians (lon2 - lon1) / 2))\<^sup>2 * ((1 + cos (radians lat1 + radians lat2)) / 2)"
proof -
  define x where "x = radians lat1"
  define y where "y = radians lat2"
  define s where "s = (sin (radians (lon2 - lon1) / 2))\<^sup>2"
  have r: "radians (lat2 - lat1) = y - x"
    by (simp add: radians_def x_def y_def diff_divide_distrib left_diff_distrib)
  have "2 * ((y - x) / 2) = y - x" by simp
  with cos_double_sin [of "(y - x) / 2"]
  have "cos (y - x) = 1 - 2 * (sin ((y - x) / 2))\<^sup>2" by (simp only:)
  then have h: "(sin ((y - x) / 2))\<^sup>2 = (1 - cos (y - x)) / 2" by simp
  have "haversine_a lat1 lon1 lat2 lon2 = (sin ((y - x) / 2))\<^sup>2 + cos x * cos y * s"
    by (simp add: haversine_a_def Let_def r x_def [symmetric] y_def [symmetric] s_def [symmetric])
  also have "\<dots> = (1 - cos (y - x)) / 2 + cos x * cos y * s"
    by (simp only: h)
  also have "\<dots> = (1 - s) * ((1 - cos (y - x)) / 2) + s * ((1 + cos (x + y)) / 2)"
    by (simp add: cos_diff cos_add algebra_simps diff_divide_distrib add_divide_distrib)
  finally show ?thesis
    by (simp only: x_def y_def s_def)
qed

lemma haversine_a_range:
  "0 \<le> haversine_a lat1 lon1 lat2 lon2 \<and> haversine_a lat1 lon1 lat2 lon2 \<le> 1"
proof -
  define s where "s = (sin (radians (lon2 - lon1) / 2))\<^sup>2"
  define p where "p = (1 - cos (radians lat2 - radians lat1)) / 2"
  define q where "q = (1 + cos (radians lat1 + radians lat2)) / 2"
  have s0: "0 \<le> s" and s1: "s \<le> 1"
    unfolding s_def by (simp_all add: abs_square_le_1)
  have p0: "0 \<le> p"
    unfolding p_def using cos_le_one [of "radians lat2 - radians lat1"] by (simp; linarith?)
  have p1: "p \<le> 1"
    unfolding p_def using cos_ge_minus_one [of "radians lat2 - radians lat1"] by (simp; linarith?)
  have q0: "0 \<le> q"
    unfolding q_def using cos_ge_minus_one [of "radians lat1 + radians lat2"] by (simp; linarith?)
  have q1: "q \<le> 1"
    unfolding q_def using cos_le_one [of "radians lat1 + radians lat2"] by (simp; linarith?)
  have e: "haversine_a lat1 lon1 lat2 lon2 = (1 - s) * p + s * q"
    unfolding s_def p_def q_def by (rule haversine_a_alt)
  have "0 \<le> (1 - s) * p + s * q"
    using s0 s1 p0 q0 by (intro add_nonneg_nonneg mult_nonneg_nonneg) simp_all
  moreover have "(1 - s) * p + s * q \<le> (1 - s) * 1 + s * 1"
    using s0 s1 p1 q1 by (intro add_mono mult_left_mono) simp_all
  ultimately show ?thesis
    unfolding e by simp
qed


lemma haversine_nonneg: "0 \<le> haversine lat1 lon1 lat2 lon2"
  using haversine_a_range [of lat1 lon1 lat2 lon2]
  by (simp add: haversine_def Let_def arcsin_nonneg)








lemma recent_alerts_length: "length (recent_alerts tenant d) \<le> 200"
  by (simp add: recent_alerts_def cursor_limit_def)












end
